theory Spec2Isabelle
  imports Main
begin

section \<open>Saving and loading the state of a training process\<close>

text \<open>
  A shallow embedding of \<^verbatim>\<open>blocks/extensions/saveload.py\<close>: the extensions
  \<^verbatim>\<open>Checkpoint\<close>, \<^verbatim>\<open>LoadFromDump\<close> and \<^verbatim>\<open>Dump\<close>. A method that mutates the main
  loop and touches the outside world becomes a function from the main loop and the world
  to an optional exception (\<open>None\<close>: the method returned), the main loop and the world
  afterwards.
\<close>

subsection \<open>Python values and exceptions\<close>

type_synonym path = string

text \<open>The values that are stored in a row of the log.\<close>

datatype pyval = PyNone | PyStr string | PyInt int | PyTuple "pyval list"

text \<open>
  An exception is an instance of a class, with a message. \<^verbatim>\<open>except Exception\<close>
  catches the instances of \<^verbatim>\<open>Exception\<close>; \<^verbatim>\<open>KeyboardInterrupt\<close>, \<^verbatim>\<open>SystemExit\<close> and
  \<^verbatim>\<open>GeneratorExit\<close> derive from \<^verbatim>\<open>BaseException\<close> only and pass through it.
\<close>

datatype exn_class =
    TypeError | ValueError | AttributeError | KeyError | IndexError | OSError
  | PicklingError | RuntimeError | KeyboardInterrupt | SystemExit | GeneratorExit

datatype exn = Exn exn_class string

fun is_Exception :: "exn \<Rightarrow> bool" where
  "is_Exception (Exn KeyboardInterrupt _) = False"
| "is_Exception (Exn SystemExit _) = False"
| "is_Exception (Exn GeneratorExit _) = False"
| "is_Exception (Exn _ _) = True"

definition LOADED_FROM :: string where
  "LOADED_FROM = ''loaded_from''"

definition SAVED_TO :: string where
  "SAVED_TO = ''saved_to''"

subsection \<open>The main loop and the world around it\<close>

type_synonym row = "string \<rightharpoonup> pyval"

text \<open>
  Modelled from the spec: the log and the main loop are declared outside
  \<^verbatim>\<open>saveload.py\<close>. The log is an ordered sequence of dict-like rows, of which the
  code reads and writes \<^verbatim>\<open>current_row\<close>; the main loop carries the log and its other
  attributes (the model, the algorithm, the data stream, ...), of an opaque type \<open>'o\<close>.
\<close>

record training_log =
  current_row :: row
  previous_rows :: "row list"

record 'o main_loop =
  log :: training_log
  attributes :: "string \<rightharpoonup> 'o"

text \<open>The objects handed to the pickler: the main loop or one of its attributes.\<close>

datatype 'o pyobj = MainLoopObj "'o main_loop" | LogObj training_log | AttrObj 'o

text \<open>
  The world outside the main loop is the history of the calls that reached it, each with
  the exception it raised, if any.
\<close>

datatype 'o event =
    Info string
  | Pickled "'o pyobj" path "exn option"
  | Dumped path "'o main_loop" "exn option"
  | Loaded path "exn option"

type_synonym 'o world = "'o event list"

text \<open>
  The functions that \<^verbatim>\<open>saveload.py\<close> imports are parameters: how
  \<^verbatim>\<open>SimpleExtension.parse_args\<close> separates the arguments of \<^verbatim>\<open>do\<close> (the arguments from
  the user are saving paths), whether \<^verbatim>\<open>secure_pickle_dump\<close> and
  \<^verbatim>\<open>MainLoopDumpManager.dump\<close> raise, what \<^verbatim>\<open>MainLoopDumpManager.load_to\<close> raises and
  makes of the main loop, whether a path exists, and the exception that \<^verbatim>\<open>reraise_as\<close>
  raises in place of the one being handled.
\<close>

record ('o, 'b) externals =
  parse_args :: "string \<Rightarrow> 'b list \<Rightarrow> exn + ('b list \<times> path list)"
  pickle_raises :: "'o world \<Rightarrow> 'o pyobj \<Rightarrow> path \<Rightarrow> exn option"
  dump_raises :: "'o world \<Rightarrow> path \<Rightarrow> 'o main_loop \<Rightarrow> exn option"
  load_result :: "'o world \<Rightarrow> path \<Rightarrow> 'o main_loop \<Rightarrow> exn option \<times> 'o main_loop"
  os_path_exists :: "'o world \<Rightarrow> path \<Rightarrow> bool"
  reraise_as :: "string \<Rightarrow> exn \<Rightarrow> exn"

text \<open>
  Modelled from the spec: \<^verbatim>\<open>secure_pickle_dump\<close> (\<^verbatim>\<open>blocks.serialization\<close>) is the
  opaque serialization primitive that writes a whole-object blob to a path; it reads the
  object and leaves it as it is.
\<close>

definition secure_pickle_dump ::
  "('o, 'b) externals \<Rightarrow> 'o pyobj \<Rightarrow> path \<Rightarrow> 'o world \<Rightarrow> exn option \<times> 'o world" where
  "secure_pickle_dump X object p w =
     (let r = pickle_raises X w object p in (r, w @ [Pickled object p r]))"

text \<open>
  Modelled from the spec: \<^verbatim>\<open>MainLoopDumpManager\<close> (\<^verbatim>\<open>blocks.dump\<close>) keeps the folder
  of the dump, which is the \<^verbatim>\<open>state_path\<close> it is constructed with (``the path to the
  folder with dump''); \<^verbatim>\<open>dump\<close> writes the main loop there and \<^verbatim>\<open>load_to\<close> loads the
  dump into the main loop.
\<close>

record MainLoopDumpManager =
  folder :: path

definition MainLoopDumpManager_init :: "path \<Rightarrow> MainLoopDumpManager" where
  "MainLoopDumpManager_init state_path = \<lparr>folder = state_path\<rparr>"

definition manager_dump ::
  "('o, 'b) externals \<Rightarrow> MainLoopDumpManager \<Rightarrow> 'o main_loop \<Rightarrow> 'o world
     \<Rightarrow> exn option \<times> 'o world" where
  "manager_dump X m ml w =
     (let r = dump_raises X w (folder m) ml in (r, w @ [Dumped (folder m) ml r]))"

definition manager_load_to ::
  "('o, 'b) externals \<Rightarrow> MainLoopDumpManager \<Rightarrow> 'o main_loop \<Rightarrow> 'o world
     \<Rightarrow> exn option \<times> 'o main_loop \<times> 'o world" where
  "manager_load_to X m ml w =
     (case load_result X w (folder m) ml of
        (r, ml') \<Rightarrow> (r, ml', w @ [Loaded (folder m) r]))"

text \<open>\<^verbatim>\<open>logger.info(msg)\<close>.\<close>

definition logger_info :: "string \<Rightarrow> 'o world \<Rightarrow> 'o world" where
  "logger_info msg w = w @ [Info msg]"

subsection \<open>Python operations used by the extensions\<close>

text \<open>\<^verbatim>\<open>row.get(key, default)\<close>.\<close>

definition row_get :: "row \<Rightarrow> string \<Rightarrow> pyval \<Rightarrow> pyval" where
  "row_get r k d = (case r k of None \<Rightarrow> d | Some v \<Rightarrow> v)"

text \<open>\<^verbatim>\<open>main_loop.log.current_row[key] = value\<close>.\<close>

definition set_record :: "string \<Rightarrow> pyval \<Rightarrow> 'o main_loop \<Rightarrow> 'o main_loop" where
  "set_record k v ml =
     ml\<lparr>log := (log ml)\<lparr>current_row := (current_row (log ml))(k \<mapsto> v)\<rparr>\<rparr>"

text \<open>
  \<^verbatim>\<open>a + b\<close> where \<open>b\<close> is a tuple: only a tuple can be added to; anything else raises
  \<^verbatim>\<open>TypeError\<close> (the messages are those of Python 3 without their quotation marks).
\<close>

fun add_tuple :: "pyval \<Rightarrow> pyval list \<Rightarrow> exn + pyval" where
  "add_tuple (PyTuple xs) ys = Inr (PyTuple (xs @ ys))"
| "add_tuple PyNone ys =
     Inl (Exn TypeError ''unsupported operand type(s) for +: NoneType and tuple'')"
| "add_tuple (PyStr s) ys =
     Inl (Exn TypeError ''can only concatenate str (not tuple) to str'')"
| "add_tuple (PyInt i) ys =
     Inl (Exn TypeError ''unsupported operand type(s) for +: int and tuple'')"

text \<open>
  \<^verbatim>\<open>path = self.path\<close>, then \<^verbatim>\<open>if from_user: path, = from_user\<close>: unpacking more than
  one value raises \<^verbatim>\<open>ValueError\<close>.
\<close>

fun choose_path :: "path \<Rightarrow> path list \<Rightarrow> exn + path" where
  "choose_path p [] = Inr p"
| "choose_path p [u] = Inr u"
| "choose_path p (u # v # vs) =
     Inl (Exn ValueError ''too many values to unpack (expected 1)'')"

text \<open>
  \<^verbatim>\<open>getattr(main_loop, attribute)\<close>: the log is an attribute of the main loop like the
  others; a missing attribute raises \<^verbatim>\<open>AttributeError\<close>.
\<close>

definition getattr :: "'o main_loop \<Rightarrow> string \<Rightarrow> exn + 'o pyobj" where
  "getattr ml a =
     (if a = ''log'' then Inr (LogObj (log ml))
      else case attributes ml a of
             None \<Rightarrow> Inl (Exn AttributeError (''MainLoop object has no attribute '' @ a))
           | Some v \<Rightarrow> Inr (AttrObj v))"

subsubsection \<open>\<^verbatim>\<open>os.path.splitext\<close> (POSIX)\<close>

text \<open>
  \<^verbatim>\<open>p.rfind(c)\<close>: the index of the last occurrence of \<open>c\<close>, or \<open>-1\<close>.
\<close>

fun rfind_from :: "char \<Rightarrow> string \<Rightarrow> int \<Rightarrow> int \<Rightarrow> int" where
  "rfind_from c [] i found = found"
| "rfind_from c (x # xs) i found = rfind_from c xs (i + 1) (if x = c then i else found)"

definition rfind :: "char \<Rightarrow> string \<Rightarrow> int" where
  "rfind c p = rfind_from c p 0 (-1)"

text \<open>
  The loop of \<^verbatim>\<open>genericpath._splitext\<close> that skips the leading dots of the file name:
  \<^verbatim>\<open>
  filenameIndex = sepIndex + 1
  while filenameIndex < dotIndex:
      if p[filenameIndex:filenameIndex+1] != extsep:
          return p[:dotIndex], p[dotIndex:]
      filenameIndex += 1
  \<close>
  It tells whether the loop returns at a character that is not a dot.
\<close>

function skip_leading_dots :: "string \<Rightarrow> nat \<Rightarrow> nat \<Rightarrow> bool" where
  "skip_leading_dots p filenameIndex dotIndex =
     (if filenameIndex < dotIndex
      then (if take 1 (drop filenameIndex p) \<noteq> ''.'' then True
            else skip_leading_dots p (Suc filenameIndex) dotIndex)
      else False)"
  by pat_completeness auto
termination
  by (relation "measure (\<lambda>(p, i, d). d - i)") auto

declare skip_leading_dots.simps [simp del]

definition splitext :: "path \<Rightarrow> path \<times> path" where
  "splitext p =
     (let sepIndex = rfind CHR ''/'' p;
          dotIndex = rfind CHR ''.'' p
      in if dotIndex > sepIndex \<and> skip_leading_dots p (nat (sepIndex + 1)) (nat dotIndex)
         then (take (nat dotIndex) p, drop (nat dotIndex) p)
         else (p, []))"

subsection \<open>Checkpoint\<close>

record Checkpoint =
  path :: path
  save_separately :: "string list"

text \<open>
  \<^verbatim>\<open>Checkpoint.__init__(path, save_separately=None)\<close>: an absent or empty list of
  attributes becomes the empty list. When the main loop calls \<^verbatim>\<open>do\<close> (the conditions
  kept by \<^verbatim>\<open>SimpleExtension\<close>) is outside \<^verbatim>\<open>saveload.py\<close>.
\<close>

definition Checkpoint_init :: "path \<Rightarrow> string list option \<Rightarrow> Checkpoint" where
  "Checkpoint_init p ss =
     \<lparr>path = p,
      save_separately = (case ss of None \<Rightarrow> [] | Some l \<Rightarrow> (if l = [] then [] else l))\<rparr>"

text \<open>
  \<^verbatim>\<open>
  root, ext = os.path.splitext(path)
  return {attribute: root + "_" + attribute + ext
          for attribute in self.save_separately}
  \<close>
\<close>

definition save_separately_filenames :: "Checkpoint \<Rightarrow> path \<Rightarrow> (string \<rightharpoonup> path)" where
  "save_separately_filenames self p =
     (case splitext p of
        (root, ext) \<Rightarrow>
          foldl (\<lambda>d attribute. d(attribute \<mapsto> root @ ''_'' @ attribute @ ext))
            Map.empty (save_separately self))"

text \<open>
  The loop over the attributes to save separately:
  \<^verbatim>\<open>
  for attribute in self.save_separately:
      secure_pickle_dump(getattr(self.main_loop, attribute), filenames[attribute])
  \<close>
\<close>

fun pickle_attributes ::
  "('o, 'b) externals \<Rightarrow> 'o main_loop \<Rightarrow> (string \<rightharpoonup> path) \<Rightarrow> string list \<Rightarrow> 'o world
     \<Rightarrow> exn option \<times> 'o world" where
  "pickle_attributes X ml filenames [] w = (None, w)"
| "pickle_attributes X ml filenames (attribute # rest) w =
     (case getattr ml attribute of
        Inl e \<Rightarrow> (Some e, w)
      | Inr object \<Rightarrow>
          (case filenames attribute of
             None \<Rightarrow> (Some (Exn KeyError attribute), w)
           | Some f \<Rightarrow>
               (case secure_pickle_dump X object f w of
                  (Some e, w') \<Rightarrow> (Some e, w')
                | (None, w') \<Rightarrow> pickle_attributes X ml filenames rest w')))"

text \<open>The body of the \<^verbatim>\<open>try\<close> block of \<^verbatim>\<open>Checkpoint.do\<close>.\<close>

definition Checkpoint_try ::
  "('o, 'b) externals \<Rightarrow> Checkpoint \<Rightarrow> path list \<Rightarrow> 'o main_loop \<times> 'o world
     \<Rightarrow> exn option \<times> 'o main_loop \<times> 'o world" where
  "Checkpoint_try X self from_user s =
     (case s of (ml, w) \<Rightarrow>
        (case choose_path (path self) from_user of
           Inl e \<Rightarrow> (Some e, ml, w)
         | Inr p \<Rightarrow>
             (case add_tuple (row_get (current_row (log ml)) SAVED_TO (PyTuple [])) [PyStr p] of
                Inl e \<Rightarrow> (Some e, ml, w)
              | Inr v \<Rightarrow>
                  (let ml1 = set_record SAVED_TO v ml in
                   case secure_pickle_dump X (MainLoopObj ml1) p w of
                     (Some e, w1) \<Rightarrow> (Some e, ml1, w1)
                   | (None, w1) \<Rightarrow>
                       (case pickle_attributes X ml1 (save_separately_filenames self p)
                               (save_separately self) w1 of
                          (r, w2) \<Rightarrow> (r, ml1, w2))))))"

text \<open>
  \<^verbatim>\<open>Checkpoint.do(callback_name, *args)\<close>: \<^verbatim>\<open>parse_args\<close> is called before the
  \<^verbatim>\<open>try\<close>; the handler \<^verbatim>\<open>except Exception\<close> records \<^verbatim>\<open>None\<close> and re-raises.
\<close>

definition Checkpoint_do ::
  "('o, 'b) externals \<Rightarrow> Checkpoint \<Rightarrow> string \<Rightarrow> 'b list \<Rightarrow> 'o main_loop \<times> 'o world
     \<Rightarrow> exn option \<times> 'o main_loop \<times> 'o world" where
  "Checkpoint_do X self callback_name args s =
     (case parse_args X callback_name args of
        Inl e \<Rightarrow> (Some e, s)
      | Inr (from_main_loop, from_user) \<Rightarrow>
          (case Checkpoint_try X self from_user s of
             (None, ml', w') \<Rightarrow> (None, ml', w')
           | (Some e, ml', w') \<Rightarrow>
               (if is_Exception e then (Some e, set_record SAVED_TO PyNone ml', w')
                else (Some e, ml', w'))))"

subsection \<open>LoadFromDump\<close>

record LoadFromDump =
  manager_load :: MainLoopDumpManager

definition LoadFromDump_init :: "path \<Rightarrow> LoadFromDump" where
  "LoadFromDump_init state_path = \<lparr>manager_load = MainLoopDumpManager_init state_path\<rparr>"

text \<open>
  \<^verbatim>\<open>"Loading the state from {} into the main loop".format(folder)\<close>.
\<close>

definition loading_message :: "path \<Rightarrow> string" where
  "loading_message f = ''Loading the state from '' @ f @ '' into the main loop''"

definition LoadFromDump_before_training ::
  "('o, 'b) externals \<Rightarrow> LoadFromDump \<Rightarrow> 'o main_loop \<times> 'o world
     \<Rightarrow> exn option \<times> 'o main_loop \<times> 'o world" where
  "LoadFromDump_before_training X self s =
     (case s of (ml, w) \<Rightarrow>
        (if \<not> os_path_exists X w (folder (manager_load self))
         then (None, ml, logger_info ''No dump found'' w)
         else
           (case manager_load_to X (manager_load self) ml
                   (logger_info (loading_message (folder (manager_load self))) w) of
              (None, ml1, w1) \<Rightarrow>
                (None, set_record LOADED_FROM (PyStr (folder (manager_load self))) ml1, w1)
            | (Some e, ml1, w1) \<Rightarrow>
                (if is_Exception e
                 then (Some (reraise_as X ''Failed to load the state'' e), ml1, w1)
                 else (Some e, ml1, w1)))))"

subsection \<open>Dump\<close>

record Dump =
  manager_dump_to :: MainLoopDumpManager

definition Dump_init :: "path \<Rightarrow> Dump" where
  "Dump_init state_path = \<lparr>manager_dump_to = MainLoopDumpManager_init state_path\<rparr>"

definition Dump_do ::
  "('o, 'b) externals \<Rightarrow> Dump \<Rightarrow> string \<Rightarrow> 'b list \<Rightarrow> 'o main_loop \<times> 'o world
     \<Rightarrow> exn option \<times> 'o main_loop \<times> 'o world" where
  "Dump_do X self callback_name args s =
     (case s of (ml, w) \<Rightarrow>
        (let ml1 = set_record SAVED_TO (PyStr (folder (manager_dump_to self))) ml in
         case manager_dump X (manager_dump_to self) ml1 w of
           (None, w1) \<Rightarrow> (None, ml1, w1)
         | (Some e, w1) \<Rightarrow>
             (if is_Exception e then (Some e, set_record SAVED_TO PyNone ml1, w1)
              else (Some e, ml1, w1))))"

subsection \<open>Observing the world\<close>

text \<open>The path a call of \<^verbatim>\<open>secure_pickle_dump\<close> wrote to, or tried to.\<close>

fun pickled_to :: "'o event \<Rightarrow> path option" where
  "pickled_to (Pickled object f r) = Some f"
| "pickled_to _ = None"

text \<open>Whether the call raised.\<close>

fun raised :: "'o event \<Rightarrow> bool" where
  "raised (Info msg) = False"
| "raised (Pickled object f r) = (r \<noteq> None)"
| "raised (Dumped f ml r) = (r \<noteq> None)"
| "raised (Loaded f r) = (r \<noteq> None)"

text \<open>The events of a run: what it added to the world it started in.\<close>

definition events_since :: "'o world \<Rightarrow> 'o world \<Rightarrow> 'o event list" where
  "events_since w w' = drop (length w) w'"

text \<open>
  The record under \<^verbatim>\<open>"saved_to"\<close> that the three extensions keep between them: absent,
  \<^verbatim>\<open>None\<close>, a path, or a tuple of paths.
\<close>

fun is_path :: "pyval \<Rightarrow> bool" where
  "is_path (PyStr s) = True"
| "is_path _ = False"

fun is_saved_to_record :: "pyval \<Rightarrow> bool" where
  "is_saved_to_record PyNone = True"
| "is_saved_to_record (PyStr s) = True"
| "is_saved_to_record (PyTuple vs) = list_all is_path vs"
| "is_saved_to_record (PyInt i) = False"

definition saved_to_ok :: "'o main_loop \<Rightarrow> bool" where
  "saved_to_ok ml =
     (case current_row (log ml) SAVED_TO of None \<Rightarrow> True | Some v \<Rightarrow> is_saved_to_record v)"

text \<open>
  The paths a run of \<^verbatim>\<open>Checkpoint.do\<close> that saves to \<open>p\<close> writes to, in order: \<open>p\<close>
  itself, then the file of each attribute saved separately.
\<close>

definition derived_paths :: "Checkpoint \<Rightarrow> path \<Rightarrow> path list" where
  "derived_paths self p =
     p # map (\<lambda>a. fst (splitext p) @ ''_'' @ a @ snd (splitext p)) (save_separately self)"

subsection \<open>A concrete setting\<close>

text \<open>
  An instance of the parameters, for running the extensions on concrete inputs:
  \<^verbatim>\<open>parse_args\<close> takes the first argument of the batch callbacks as the main loop's and
  the rest as the user's, nothing raises, every path exists, loading leaves the main loop
  as it is, and \<^verbatim>\<open>reraise_as\<close> raises an exception of the same class with the new
  message in front of the old one.
\<close>

definition example_parse_args :: "string \<Rightarrow> path list \<Rightarrow> exn + (path list \<times> path list)" where
  "example_parse_args which_callback args =
     (if which_callback = ''after_batch'' \<or> which_callback = ''before_batch''
      then (case args of
              [] \<Rightarrow> Inl (Exn IndexError ''tuple index out of range'')
            | a # rest \<Rightarrow> Inr ([a], rest))
      else Inr ([], args))"

fun example_reraise_as :: "string \<Rightarrow> exn \<Rightarrow> exn" where
  "example_reraise_as msg (Exn c m) = Exn c (msg @ '': '' @ m)"

definition example_externals :: "(nat, path) externals" where
  "example_externals =
     \<lparr>parse_args = example_parse_args,
      pickle_raises = (\<lambda>w object p. None),
      dump_raises = (\<lambda>w f ml. None),
      load_result = (\<lambda>w f ml. (None, ml)),
      os_path_exists = (\<lambda>w p. True),
      reraise_as = example_reraise_as\<rparr>"

definition example_main_loop :: "nat main_loop" where
  "example_main_loop =
     \<lparr>log = \<lparr>current_row = Map.empty, previous_rows = []\<rparr>,
      attributes = [''model'' \<mapsto> 0, ''algorithm'' \<mapsto> 1]\<rparr>"

definition example_checkpoint :: Checkpoint where
  "example_checkpoint = Checkpoint_init ''model.pkl'' (Some [''log'', ''model''])"

text \<open>The same setting when every call that saves or loads raises \<open>e\<close>.\<close>

definition raising_externals :: "exn \<Rightarrow> (nat, path) externals" where
  "raising_externals e =
     example_externals
       \<lparr>pickle_raises := (\<lambda>w object p. Some e),
        dump_raises := (\<lambda>w f ml. Some e),
        load_result := (\<lambda>w f ml. (Some e, ml))\<rparr>"

text \<open>The same setting when no path exists.\<close>

definition no_dump_externals :: "(nat, path) externals" where
  "no_dump_externals = example_externals\<lparr>os_path_exists := (\<lambda>w p. False)\<rparr>"

text \<open>A checkpoint asked to save separately an attribute the main loop does not have.\<close>

definition misspelt_checkpoint :: Checkpoint where
  "misspelt_checkpoint = Checkpoint_init ''model.pkl'' (Some [''modle''])"

text \<open>The main loop after a first checkpoint to \<^verbatim>\<open>model.pkl\<close> in the current row.\<close>

definition saved_once :: "nat main_loop" where
  "saved_once = set_record SAVED_TO (PyTuple [PyStr ''model.pkl'']) example_main_loop"


section \<open>Properties\<close>

subsection \<open>Auxiliary facts\<close>

lemma splitext_append: "fst (splitext p) @ snd (splitext p) = p"
  by (simp add: splitext_def Let_def)

lemma filenames_foldl:
  "foldl (\<lambda>d attribute. d(attribute \<mapsto> f attribute)) d0 as a =
     (if a \<in> set as then Some (f a) else d0 a)"
  by (induction as arbitrary: d0) auto

lemma save_separately_filenames_eq:
  "save_separately_filenames self p a =
     (if a \<in> set (save_separately self)
      then Some (fst (splitext p) @ ''_'' @ a @ snd (splitext p)) else None)"
  by (simp add: save_separately_filenames_def filenames_foldl split: prod.splits)

lemma set_record_simps:
  "attributes (set_record k v ml) = attributes ml"
  "previous_rows (log (set_record k v ml)) = previous_rows (log ml)"
  "current_row (log (set_record k v ml)) = (current_row (log ml))(k \<mapsto> v)"
  by (simp_all add: set_record_def)

lemma set_record_twice: "set_record k v (set_record k u ml) = set_record k v ml"
  by (simp add: set_record_def)

lemma secure_pickle_dump_eq:
  "secure_pickle_dump X object f w =
     (pickle_raises X w object f, w @ [Pickled object f (pickle_raises X w object f)])"
  by (simp add: secure_pickle_dump_def Let_def)

lemma manager_dump_eq:
  "manager_dump X m ml w =
     (dump_raises X w (folder m) ml, w @ [Dumped (folder m) ml (dump_raises X w (folder m) ml)])"
  by (simp add: manager_dump_def Let_def)

lemma events_since_append: "events_since w (w @ evs) = evs"
  by (simp add: events_since_def)

lemma add_tuple_Inr:
  "add_tuple v ys = Inr x \<longleftrightarrow> (\<exists>xs. v = PyTuple xs \<and> x = PyTuple (xs @ ys))"
  by (cases v) auto

text \<open>
  What the loop over the attributes adds to the world: calls of \<^verbatim>\<open>secure_pickle_dump\<close>
  on the derived file names, in the order of the attributes, up to the first that raises.
\<close>

lemma pickle_attributes_events:
  "pickle_attributes X ml fns as w = (r, w') \<Longrightarrow>
     \<exists>evs n. w' = w @ evs
       \<and> (\<forall>object f e. Pickled object f (Some e) \<in> set evs \<longrightarrow> r = Some e)
       \<and> map pickled_to evs = take n (map fns as)
       \<and> (r = None \<longrightarrow> evs = map (\<lambda>a. Pickled (projr (getattr ml a)) (the (fns a)) None) as)
       \<and> length (filter raised evs) \<le> 1"
proof (induction as arbitrary: w)
  case Nil
  then show ?case by simp
next
  case (Cons a as)
  show ?case
  proof (cases "getattr ml a")
    case (Inl e)
    with Cons.prems have "w' = w @ [] \<and> r = Some e" by simp
    then show ?thesis by (intro exI [of _ "[]"] exI [of _ 0]) simp
  next
    case (Inr object)
    show ?thesis
    proof (cases "fns a")
      case None
      with Inr Cons.prems have "w' = w @ [] \<and> r \<noteq> None" by auto
      then show ?thesis by (intro exI [of _ "[]"] exI [of _ 0]) simp
    next
      case (Some f)
      show ?thesis
      proof (cases "pickle_raises X w object f")
        case None
        with Inr Some Cons.prems
        have "pickle_attributes X ml fns as (w @ [Pickled object f None]) = (r, w')"
          by (simp add: secure_pickle_dump_eq)
        from Cons.IH [OF this] obtain evs n where
          evs: "w' = (w @ [Pickled object f None]) @ evs"
            "\<forall>object f e. Pickled object f (Some e) \<in> set evs \<longrightarrow> r = Some e"
            "map pickled_to evs = take n (map fns as)"
            "r = None \<longrightarrow> evs = map (\<lambda>a. Pickled (projr (getattr ml a)) (the (fns a)) None) as"
            "length (filter raised evs) \<le> 1"
          by blast
        show ?thesis
          using evs Inr Some
          by (intro exI [of _ "Pickled object f None # evs"] exI [of _ "Suc n"]) auto
      next
        case e: (Some e)
        with Inr Some Cons.prems have "w' = w @ [Pickled object f (Some e)] \<and> r = Some e"
          by (auto simp add: secure_pickle_dump_eq)
        then show ?thesis
          using Some by (intro exI [of _ "[Pickled object f (Some e)]"] exI [of _ 1]) simp
      qed
    qed
  qed
qed

text \<open>
  The two ways through the \<^verbatim>\<open>try\<close> block: it raises before the log is touched, or it
  records the path and pickles to the path and to the derived file names, up to the first
  call that raises.
\<close>

lemma Checkpoint_try_cases:
  assumes "Checkpoint_try X self fu (ml, w) = (r, ml1, w1)"
  shows "(\<exists>e. r = Some e \<and> is_Exception e \<and> ml1 = ml \<and> w1 = w) \<or>
     (\<exists>p already evs n.
        choose_path (path self) fu = Inr p
      \<and> row_get (current_row (log ml)) SAVED_TO (PyTuple []) = PyTuple already
      \<and> ml1 = set_record SAVED_TO (PyTuple (already @ [PyStr p])) ml
      \<and> w1 = w @ evs
      \<and> (\<forall>object f e. Pickled object f (Some e) \<in> set evs \<longrightarrow> r = Some e)
      \<and> map pickled_to evs = take n (map Some (derived_paths self p))
      \<and> (r = None \<longrightarrow>
           evs = Pickled (MainLoopObj ml1) p None #
             map (\<lambda>a. Pickled (projr (getattr ml1 a))
                        (fst (splitext p) @ ''_'' @ a @ snd (splitext p)) None)
               (save_separately self))
      \<and> length (filter raised evs) \<le> 1)"
proof (cases "choose_path (path self) fu")
  case (Inl e)
  then have "e = Exn ValueError ''too many values to unpack (expected 1)''"
    by (cases "(path self, fu)" rule: choose_path.cases) auto
  with Inl assms show ?thesis by (auto simp add: Checkpoint_try_def)
next
  case p: (Inr p)
  show ?thesis
  proof (cases "add_tuple (row_get (current_row (log ml)) SAVED_TO (PyTuple [])) [PyStr p]")
    case (Inl e)
    then have "is_Exception e"
      by (cases "row_get (current_row (log ml)) SAVED_TO (PyTuple [])") auto
    with Inl p assms show ?thesis by (auto simp add: Checkpoint_try_def)
  next
    case (Inr v)
    then obtain already where
      already: "row_get (current_row (log ml)) SAVED_TO (PyTuple []) = PyTuple already"
        "v = PyTuple (already @ [PyStr p])"
      by (auto simp add: add_tuple_Inr)
    define m1 where "m1 = set_record SAVED_TO v ml"
    define r0 where "r0 = pickle_raises X w (MainLoopObj m1) p"
    define fns where "fns = save_separately_filenames self p"
    have fns: "map fns (save_separately self) =
        map (\<lambda>a. Some (fst (splitext p) @ ''_'' @ a @ snd (splitext p))) (save_separately self)"
      by (simp add: fns_def save_separately_filenames_eq)
    show ?thesis
    proof (cases r0)
      case (Some e)
      with assms p Inr have "r = Some e \<and> ml1 = m1 \<and> w1 = w @ [Pickled (MainLoopObj m1) p (Some e)]"
        by (auto simp add: Checkpoint_try_def secure_pickle_dump_eq m1_def r0_def Let_def)
      then show ?thesis
        using p already
        by (intro disjI2 exI [of _ p] exI [of _ already]
              exI [of _ "[Pickled (MainLoopObj m1) p (Some e)]"] exI [of _ 1])
           (simp add: m1_def derived_paths_def)
    next
      case None
      obtain r' w' where pa:
        "pickle_attributes X m1 fns (save_separately self) (w @ [Pickled (MainLoopObj m1) p None])
           = (r', w')"
        by (cases "pickle_attributes X m1 fns (save_separately self)
                     (w @ [Pickled (MainLoopObj m1) p None])") auto
      with assms p Inr None have res: "r = r' \<and> ml1 = m1 \<and> w1 = w'"
        by (auto simp add: Checkpoint_try_def secure_pickle_dump_eq m1_def r0_def fns_def Let_def)
      from pickle_attributes_events [OF pa] obtain evs n where
        evs: "w' = (w @ [Pickled (MainLoopObj m1) p None]) @ evs"
          "\<forall>object f e. Pickled object f (Some e) \<in> set evs \<longrightarrow> r' = Some e"
          "map pickled_to evs = take n (map fns (save_separately self))"
          "r' = None \<longrightarrow>
             evs = map (\<lambda>a. Pickled (projr (getattr m1 a)) (the (fns a)) None) (save_separately self)"
          "length (filter raised evs) \<le> 1"
        by blast
      have the_fns: "r' = None \<longrightarrow>
          evs = map (\<lambda>a. Pickled (projr (getattr m1 a))
                        (fst (splitext p) @ ''_'' @ a @ snd (splitext p)) None)
                  (save_separately self)"
        using evs(4) by (auto simp add: fns_def save_separately_filenames_eq)
      show ?thesis
        using p already res evs(1,2,3,5) the_fns fns
        by (intro disjI2 exI [of _ p] exI [of _ already]
              exI [of _ "Pickled (MainLoopObj m1) p None # evs"] exI [of _ "Suc n"])
           (auto simp add: m1_def derived_paths_def comp_def)
    qed
  qed
qed

text \<open>
  \<^verbatim>\<open>Checkpoint.do\<close>: \<^verbatim>\<open>parse_args\<close> raises and nothing else happens, or the \<^verbatim>\<open>try\<close>
  block runs and the handler marks the log when the block raised an \<^verbatim>\<open>Exception\<close>.
\<close>

lemma Checkpoint_do_cases:
  assumes "Checkpoint_do X self cb args (ml, w) = (r, ml', w')"
  shows "(\<exists>e. parse_args X cb args = Inl e \<and> r = Some e \<and> ml' = ml \<and> w' = w) \<or>
    (\<exists>fm fu ml1. parse_args X cb args = Inr (fm, fu)
       \<and> Checkpoint_try X self fu (ml, w) = (r, ml1, w')
       \<and> ml' = (case r of None \<Rightarrow> ml1
                  | Some e \<Rightarrow> if is_Exception e then set_record SAVED_TO PyNone ml1 else ml1))"
  using assms
  by (auto simp add: Checkpoint_do_def split: sum.splits prod.splits option.splits if_splits)

lemma set_record_frame:
  "set_record k v ml =
     ml\<lparr>log := (log ml)\<lparr>current_row := (current_row (log ml))
            (k := current_row (log (set_record k v ml)) k)\<rparr>\<rparr>"
  by (simp add: set_record_def)

text \<open>
  \<^verbatim>\<open>rfind\<close> finds the last occurrence; so the second component of \<^verbatim>\<open>splitext\<close> is
  empty or is the last dot of the path with what follows it, without any slash.
\<close>

lemma rfind_from_notin: "c \<notin> set xs \<Longrightarrow> rfind_from c xs i found = found"
  by (induction xs arbitrary: i found) auto

lemma rfind_from_in:
  "c \<in> set xs \<Longrightarrow>
     \<exists>k<length xs. rfind_from c xs i found = i + int k \<and> xs ! k = c
        \<and> c \<notin> set (drop (Suc k) xs)"
proof (induction xs arbitrary: i found)
  case Nil
  then show ?case by simp
next
  case (Cons x xs)
  show ?case
  proof (cases "c \<in> set xs")
    case True
    from Cons.IH [OF True, of "i + 1" "if x = c then i else found"]
    obtain k where "k < length xs"
      "rfind_from c xs (i + 1) (if x = c then i else found) = i + 1 + int k"
      "xs ! k = c" "c \<notin> set (drop (Suc k) xs)"
      by blast
    then show ?thesis
      by (intro exI [of _ "Suc k"]) simp
  next
    case False
    with Cons.prems have "x = c" by simp
    with False show ?thesis
      by (intro exI [of _ 0]) (simp add: rfind_from_notin)
  qed
qed

lemma rfind_cases:
  "(c \<notin> set p \<and> rfind c p = -1) \<or>
   (\<exists>k<length p. rfind c p = int k \<and> p ! k = c \<and> c \<notin> set (drop (Suc k) p))"
  using rfind_from_notin [of c p 0 "-1"] rfind_from_in [of c p 0 "-1"]
  by (cases "c \<in> set p") (auto simp add: rfind_def)

lemma splitext_extension:
  "snd (splitext p) = [] \<or>
   (hd (snd (splitext p)) = CHR ''.'' \<and> CHR ''.'' \<notin> set (tl (snd (splitext p)))
      \<and> CHR ''/'' \<notin> set (snd (splitext p)))"
proof (cases "rfind CHR ''.'' p > rfind CHR ''/'' p
    \<and> skip_leading_dots p (nat (rfind CHR ''/'' p + 1)) (nat (rfind CHR ''.'' p))")
  case False
  then show ?thesis by (auto simp add: splitext_def Let_def)
next
  case True
  then have ext: "snd (splitext p) = drop (nat (rfind CHR ''.'' p)) p"
    by (simp add: splitext_def Let_def)
  from rfind_cases [of "CHR ''/''" p] have sep: "rfind CHR ''/'' p \<ge> -1" by auto
  with True rfind_cases [of "CHR ''.''" p] obtain k where k: "k < length p"
    "rfind CHR ''.'' p = int k" "p ! k = CHR ''.''" "CHR ''.'' \<notin> set (drop (Suc k) p)"
    by auto
  have d: "drop k p = CHR ''.'' # drop (Suc k) p"
    using k(1,3) by (simp add: Cons_nth_drop_Suc [symmetric])
  have "CHR ''/'' \<notin> set (drop k p)"
  proof (cases "CHR ''/'' \<in> set p")
    case False
    then show ?thesis using set_drop_subset [of k p] by auto
  next
    case sl: True
    with rfind_cases [of "CHR ''/''" p] obtain j where j: "j < length p"
      "rfind CHR ''/'' p = int j" "CHR ''/'' \<notin> set (drop (Suc j) p)"
      by auto
    with True k(2) have "Suc j \<le> k" by simp
    from set_drop_subset_set_drop [OF this, of p] j(3) show ?thesis by auto
  qed
  with ext k(2,4) d show ?thesis by simp
qed

text \<open>The runs of \<^verbatim>\<open>Dump.do\<close> and of \<^verbatim>\<open>LoadFromDump.before_training\<close>.\<close>

lemma Checkpoint_try_marks:
  assumes "Checkpoint_try X self fu (ml, w) = (r, ml1, w1)"
  shows "set_record SAVED_TO PyNone ml1 = set_record SAVED_TO PyNone ml"
  using Checkpoint_try_cases [OF assms] by (auto simp add: set_record_twice)

lemma Dump_do_eq:
  "Dump_do X d cb args (ml, w) =
     (let f = folder (manager_dump_to d);
          ml1 = set_record SAVED_TO (PyStr f) ml;
          r = dump_raises X w f ml1
      in (r,
          (case r of None \<Rightarrow> ml1
           | Some e \<Rightarrow> if is_Exception e then set_record SAVED_TO PyNone ml else ml1),
          w @ [Dumped f ml1 r]))"
  by (simp add: Dump_do_def manager_dump_eq Let_def set_record_twice split: option.splits)

lemma LoadFromDump_run:
  assumes "os_path_exists X w (folder (manager_load l))"
    and "load_result X (logger_info (loading_message (folder (manager_load l))) w)
           (folder (manager_load l)) ml = (r, ml1)"
  shows "LoadFromDump_before_training X l (ml, w) =
    ((case r of None \<Rightarrow> None
      | Some e \<Rightarrow> if is_Exception e then Some (reraise_as X ''Failed to load the state'' e)
                  else Some e),
     (case r of None \<Rightarrow> set_record LOADED_FROM (PyStr (folder (manager_load l))) ml1
      | Some e \<Rightarrow> ml1),
     w @ [Info (loading_message (folder (manager_load l))), Loaded (folder (manager_load l)) r])"
  using assms
  by (auto simp add: LoadFromDump_before_training_def manager_load_to_def logger_info_def
        split: option.splits)

lemma keys_differ: "LOADED_FROM \<noteq> SAVED_TO"
  by (simp add: LOADED_FROM_def SAVED_TO_def)

lemma set_record_other:
  "k' \<noteq> k \<Longrightarrow> current_row (log (set_record k v ml)) k' = current_row (log ml) k'"
  by (simp add: set_record_def)


subsection \<open>Concrete runs\<close>

lemma splitext_model: "splitext ''model.pkl'' = (''model'', ''.pkl'')"
  by code_simp

lemma splitext_best: "splitext ''best.pkl'' = (''best'', ''.pkl'')"
  by code_simp

lemmas run_defs =
  Checkpoint_do_def Checkpoint_try_def example_externals_def example_parse_args_def
  example_checkpoint_def Checkpoint_init_def example_main_loop_def
  secure_pickle_dump_eq save_separately_filenames_eq getattr_def row_get_def
  set_record_def SAVED_TO_def splitext_model splitext_best Let_def
  raising_externals_def misspelt_checkpoint_def saved_once_def

text \<open>A first checkpoint, after training, with no argument from the user.\<close>

lemma first_run:
  "Checkpoint_do example_externals example_checkpoint ''after_training'' []
     (example_main_loop, []) =
   (None, saved_once,
    [Pickled (MainLoopObj saved_once) ''model.pkl'' None,
     Pickled (LogObj (log saved_once)) ''model_log.pkl'' None,
     Pickled (AttrObj 0) ''model_model.pkl'' None])"
  by (simp add: run_defs)

text \<open>A second checkpoint in the same row, to a path given by the user.\<close>

lemma second_run:
  "Checkpoint_do example_externals example_checkpoint ''after_epoch'' [''best.pkl'']
     (saved_once, []) =
   (None, set_record SAVED_TO (PyTuple [PyStr ''model.pkl'', PyStr ''best.pkl'']) saved_once,
    [Pickled (MainLoopObj
        (set_record SAVED_TO (PyTuple [PyStr ''model.pkl'', PyStr ''best.pkl'']) saved_once))
       ''best.pkl'' None,
     Pickled (LogObj (log
        (set_record SAVED_TO (PyTuple [PyStr ''model.pkl'', PyStr ''best.pkl'']) saved_once)))
       ''best_log.pkl'' None,
     Pickled (AttrObj 0) ''best_model.pkl'' None])"
  by (simp add: run_defs)

text \<open>A checkpoint when the disk is full.\<close>

lemma full_disk_run:
  "Checkpoint_do (raising_externals (Exn OSError ''No space left on device''))
     example_checkpoint ''after_training'' [] (example_main_loop, []) =
   (Some (Exn OSError ''No space left on device''),
    set_record SAVED_TO PyNone example_main_loop,
    [Pickled (MainLoopObj saved_once) ''model.pkl''
       (Some (Exn OSError ''No space left on device''))])"
  by (simp add: run_defs)

lemmas more_run_defs =
  Dump_do_eq Dump_init_def LoadFromDump_init_def MainLoopDumpManager_init_def
  LoadFromDump_before_training_def manager_load_to_def logger_info_def loading_message_def
  LOADED_FROM_def no_dump_externals_def

text \<open>A checkpoint interrupted from the keyboard while pickling.\<close>

lemma interrupted_run:
  "Checkpoint_do (raising_externals (Exn KeyboardInterrupt [])) example_checkpoint
     ''after_training'' [] (example_main_loop, []) =
   (Some (Exn KeyboardInterrupt []), saved_once,
    [Pickled (MainLoopObj saved_once) ''model.pkl'' (Some (Exn KeyboardInterrupt []))])"
  by (simp add: run_defs)


text \<open>Dumping and loading, when they work and when they raise.\<close>

lemma dump_run:
  "Dump_do example_externals (Dump_init ''dump'') ''after_training'' [] (example_main_loop, []) =
   (None, set_record SAVED_TO (PyStr ''dump'') example_main_loop,
    [Dumped ''dump'' (set_record SAVED_TO (PyStr ''dump'') example_main_loop) None])"
  by (simp add: run_defs more_run_defs)

lemma full_disk_dump_run:
  "Dump_do (raising_externals (Exn OSError ''No space left on device'')) (Dump_init ''dump'')
     ''after_training'' [] (example_main_loop, []) =
   (Some (Exn OSError ''No space left on device''),
    set_record SAVED_TO PyNone example_main_loop,
    [Dumped ''dump'' (set_record SAVED_TO (PyStr ''dump'') example_main_loop)
       (Some (Exn OSError ''No space left on device''))])"
  by (simp add: run_defs more_run_defs)

lemma load_run:
  "LoadFromDump_before_training example_externals (LoadFromDump_init ''dump'')
     (example_main_loop, []) =
   (None, set_record LOADED_FROM (PyStr ''dump'') example_main_loop,
    [Info ''Loading the state from dump into the main loop'', Loaded ''dump'' None])"
  by (simp add: run_defs more_run_defs)

lemma failed_load_run:
  "LoadFromDump_before_training (raising_externals (Exn OSError ''No such file or directory''))
     (LoadFromDump_init ''dump'') (example_main_loop, []) =
   (Some (Exn OSError ''Failed to load the state: No such file or directory''),
    example_main_loop,
    [Info ''Loading the state from dump into the main loop'',
     Loaded ''dump'' (Some (Exn OSError ''No such file or directory''))])"
  by (simp add: run_defs more_run_defs)


subsection \<open>Failures\<close>

text \<open>
  As stated, C1 asks of all three extensions that an exception raised while saving or
  loading is caught, that a failure marker is written to the log, and that the same
  exception is re-raised. When \<^verbatim>\<open>load_to\<close> raises in \<^verbatim>\<open>LoadFromDump.before_training\<close>,
  the handler only calls \<^verbatim>\<open>reraise_as\<close>: nothing is written to the log, whose current
  row is as empty afterwards as before, and what reaches the caller is the exception that
  \<^verbatim>\<open>reraise_as\<close> makes.
\<close>

theorem failed_load_leaves_no_marker:
  "fst (LoadFromDump_before_training
          (raising_externals (Exn OSError ''No such file or directory''))
          (LoadFromDump_init ''dump'') (example_main_loop, []))
     = Some (Exn OSError ''Failed to load the state: No such file or directory'')
   \<and> log (fst (snd (LoadFromDump_before_training
          (raising_externals (Exn OSError ''No such file or directory''))
          (LoadFromDump_init ''dump'') (example_main_loop, []))))
     = \<lparr>current_row = Map.empty, previous_rows = []\<rparr>"
  unfolding failed_load_run by (simp add: example_main_loop_def)

lemma Checkpoint_do_handler:
  assumes "parse_args X cb args = Inr (fm, fu)"
    and "Checkpoint_try X self fu (ml, w) = (Some e, ml1, w1)"
    and "is_Exception e"
  shows "Checkpoint_do X self cb args (ml, w) = (Some e, set_record SAVED_TO PyNone ml, w1)
    \<and> length (filter raised (events_since w w1)) \<le> 1"
proof
  show "Checkpoint_do X self cb args (ml, w) = (Some e, set_record SAVED_TO PyNone ml, w1)"
    using assms Checkpoint_try_marks [OF assms(2)] by (simp add: Checkpoint_do_def)
  show "length (filter raised (events_since w w1)) \<le> 1"
    using Checkpoint_try_cases [OF assms(2)] by (auto simp add: events_since_def)
qed

lemma Dump_do_handler:
  assumes "dump_raises X w (folder (manager_dump_to d))
         (set_record SAVED_TO (PyStr (folder (manager_dump_to d))) ml) = Some e"
    and "is_Exception e"
  shows "Dump_do X d cb args (ml, w) =
          (Some e, set_record SAVED_TO PyNone ml,
           w @ [Dumped (folder (manager_dump_to d))
                  (set_record SAVED_TO (PyStr (folder (manager_dump_to d))) ml) (Some e)])"
  using assms by (simp add: Dump_do_eq Let_def)

lemma LoadFromDump_handler:
  assumes "os_path_exists X w (folder (manager_load l))"
    and "load_result X (logger_info (loading_message (folder (manager_load l))) w)
           (folder (manager_load l)) ml = (Some e, ml2)"
    and "is_Exception e"
  shows "LoadFromDump_before_training X l (ml, w) =
          (Some (reraise_as X ''Failed to load the state'' e), ml2,
           w @ [Info (loading_message (folder (manager_load l))),
                Loaded (folder (manager_load l)) (Some e)])"
  using LoadFromDump_run [OF assms(1,2)] assms(3) by simp

text \<open>
  C1, amended: in \<^verbatim>\<open>Checkpoint.do\<close> and \<^verbatim>\<open>Dump.do\<close>, an exception of class
  \<^verbatim>\<open>Exception\<close> raised inside the \<^verbatim>\<open>try\<close> block is caught once (no call is retried: at
  most one call of the run has raised), \<^verbatim>\<open>None\<close> is written under \<^verbatim>\<open>"saved_to"\<close> in the
  current row of the log, and the same exception is re-raised. In
  \<^verbatim>\<open>LoadFromDump.before_training\<close>, such an exception of \<^verbatim>\<open>load_to\<close> is caught once
  and \<^verbatim>\<open>reraise_as("Failed to load the state")\<close> raises in its place; the main loop is
  left as \<^verbatim>\<open>load_to\<close> left it, with no record added to the log.
\<close>

theorem handlers_mark_and_reraise:
  "(parse_args X cb args = Inr (fm, fu) \<and> Checkpoint_try X self fu (ml, w) = (Some e, ml1, w1)
      \<and> is_Exception e \<longrightarrow>
        Checkpoint_do X self cb args (ml, w) = (Some e, set_record SAVED_TO PyNone ml, w1)
      \<and> length (filter raised (events_since w w1)) \<le> 1)
   \<and> (dump_raises X w (folder (manager_dump_to d))
         (set_record SAVED_TO (PyStr (folder (manager_dump_to d))) ml) = Some e
      \<and> is_Exception e \<longrightarrow>
        Dump_do X d cb' args' (ml, w) =
          (Some e, set_record SAVED_TO PyNone ml,
           w @ [Dumped (folder (manager_dump_to d))
                  (set_record SAVED_TO (PyStr (folder (manager_dump_to d))) ml) (Some e)]))
   \<and> (os_path_exists X w (folder (manager_load l))
      \<and> load_result X (logger_info (loading_message (folder (manager_load l))) w)
           (folder (manager_load l)) ml = (Some e, ml2)
      \<and> is_Exception e \<longrightarrow>
        LoadFromDump_before_training X l (ml, w) =
          (Some (reraise_as X ''Failed to load the state'' e), ml2,
           w @ [Info (loading_message (folder (manager_load l))),
                Loaded (folder (manager_load l)) (Some e)]))"
  using Checkpoint_do_handler [of X cb args fm fu self ml w e ml1 w1]
    Dump_do_handler [of X w d ml e cb' args']
    LoadFromDump_handler [of X w l ml e ml2]
  by blast

theorem handlers_mark_and_reraise_witness:
  "is_Exception (Exn OSError ''No space left on device'')
   \<and> Checkpoint_do (raising_externals (Exn OSError ''No space left on device''))
        example_checkpoint ''after_training'' [] (example_main_loop, [])
      = (Some (Exn OSError ''No space left on device''),
         set_record SAVED_TO PyNone example_main_loop,
         [Pickled (MainLoopObj saved_once) ''model.pkl''
            (Some (Exn OSError ''No space left on device''))])
   \<and> Dump_do (raising_externals (Exn OSError ''No space left on device'')) (Dump_init ''dump'')
        ''after_training'' [] (example_main_loop, [])
      = (Some (Exn OSError ''No space left on device''),
         set_record SAVED_TO PyNone example_main_loop,
         [Dumped ''dump'' (set_record SAVED_TO (PyStr ''dump'') example_main_loop)
            (Some (Exn OSError ''No space left on device''))])
   \<and> LoadFromDump_before_training (raising_externals (Exn OSError ''No space left on device''))
        (LoadFromDump_init ''dump'') (example_main_loop, [])
      = (Some (Exn OSError ''Failed to load the state: No space left on device''),
         example_main_loop,
         [Info ''Loading the state from dump into the main loop'',
          Loaded ''dump'' (Some (Exn OSError ''No space left on device''))])"
  using handlers_mark_and_reraise
    [where X = "raising_externals (Exn OSError ''No space left on device'')"
       and cb = "''after_training''" and args = "[]" and fm = "[]" and fu = "[]"
       and self = example_checkpoint and ml = example_main_loop and w = "[]"
       and e = "Exn OSError ''No space left on device''"
       and ?ml1.0 = saved_once
       and ?w1.0 = "[Pickled (MainLoopObj saved_once) ''model.pkl''
            (Some (Exn OSError ''No space left on device''))]"
       and d = "Dump_init ''dump''" and cb' = "''after_training''" and args' = "[]"
       and l = "LoadFromDump_init ''dump''" and ?ml2.0 = example_main_loop]
  by (simp add: run_defs more_run_defs)

text \<open>
  As stated, C2 asks for \<^verbatim>\<open>None\<close> under \<^verbatim>\<open>"saved_to"\<close> whenever \<^verbatim>\<open>secure_pickle_dump\<close>
  raises any exception. The handler is \<^verbatim>\<open>except Exception\<close>: a \<^verbatim>\<open>KeyboardInterrupt\<close>
  raised while pickling propagates, but the record stays the tuple with the path.
\<close>

theorem interrupt_leaves_path_recorded:
  "fst (Checkpoint_do (raising_externals (Exn KeyboardInterrupt [])) example_checkpoint
          ''after_training'' [] (example_main_loop, []))
     = Some (Exn KeyboardInterrupt [])
   \<and> events_since [] (snd (snd (Checkpoint_do (raising_externals (Exn KeyboardInterrupt []))
          example_checkpoint ''after_training'' [] (example_main_loop, []))))
     = [Pickled (MainLoopObj saved_once) ''model.pkl'' (Some (Exn KeyboardInterrupt []))]
   \<and> current_row (log (fst (snd (Checkpoint_do (raising_externals (Exn KeyboardInterrupt []))
          example_checkpoint ''after_training'' [] (example_main_loop, []))))) SAVED_TO
     = Some (PyTuple [PyStr ''model.pkl''])"
  unfolding interrupted_run by (simp add: events_since_def saved_once_def set_record_simps)

lemma Checkpoint_do_pickle_raised:
  assumes "Checkpoint_do X self cb args (ml, w) = (r, ml', w')"
    and "Pickled object f (Some e) \<in> set (events_since w w')"
    and "is_Exception e"
  shows "r = Some e \<and> current_row (log ml') SAVED_TO = Some PyNone"
proof -
  from assms(1,2) Checkpoint_do_cases [OF assms(1)]
  obtain fu ml1 where body: "Checkpoint_try X self fu (ml, w) = (r, ml1, w')"
    and ml': "ml' = (case r of None \<Rightarrow> ml1
                  | Some e \<Rightarrow> if is_Exception e then set_record SAVED_TO PyNone ml1 else ml1)"
    by (auto simp add: events_since_def)
  from assms(2) Checkpoint_try_cases [OF body] have r: "r = Some e"
    by (auto simp add: events_since_def)
  with assms(3) ml' show ?thesis
    by (simp add: set_record_simps)
qed

lemma Dump_do_dump_raised:
  assumes "Dump_do X d cb args (ml, w) = (r, ml', w')"
    and "Dumped g m (Some e) \<in> set (events_since w w')"
    and "is_Exception e"
  shows "r = Some e \<and> current_row (log ml') SAVED_TO = Some PyNone"
proof -
  define r0 where
    "r0 = dump_raises X w (folder (manager_dump_to d))
            (set_record SAVED_TO (PyStr (folder (manager_dump_to d))) ml)"
  from assms(1) have run: "r = r0"
    "w' = w @ [Dumped (folder (manager_dump_to d))
                 (set_record SAVED_TO (PyStr (folder (manager_dump_to d))) ml) r0]"
    "ml' = (case r0 of
             None \<Rightarrow> set_record SAVED_TO (PyStr (folder (manager_dump_to d))) ml
           | Some e \<Rightarrow> if is_Exception e then set_record SAVED_TO PyNone ml
                       else set_record SAVED_TO (PyStr (folder (manager_dump_to d))) ml)"
    by (auto simp add: Dump_do_eq Let_def r0_def)
  from assms(2) run(2) have "r0 = Some e"
    by (simp add: events_since_def)
  with run(1,3) assms(3) show ?thesis
    by (simp add: set_record_simps)
qed

text \<open>
  C2, amended: if a call of \<^verbatim>\<open>secure_pickle_dump\<close> in \<^verbatim>\<open>Checkpoint.do\<close>, or the call of
  \<^verbatim>\<open>manager.dump\<close> in \<^verbatim>\<open>Dump.do\<close>, raises an exception of class \<^verbatim>\<open>Exception\<close>, then
  afterwards the current row of the log has \<^verbatim>\<open>None\<close> under \<^verbatim>\<open>"saved_to"\<close> and that
  exception propagates unchanged out of \<^verbatim>\<open>do\<close>.
\<close>

theorem serialization_failure_marks_None:
  "(Checkpoint_do X self cb args (ml, w) = (r, ml', w')
      \<and> Pickled object f (Some e) \<in> set (events_since w w') \<and> is_Exception e \<longrightarrow>
        r = Some e \<and> current_row (log ml') SAVED_TO = Some PyNone)
   \<and> (Dump_do X d cb' args' (ml, w) = (r, ml', w')
      \<and> Dumped g m (Some e) \<in> set (events_since w w') \<and> is_Exception e \<longrightarrow>
        r = Some e \<and> current_row (log ml') SAVED_TO = Some PyNone)"
  using Checkpoint_do_pickle_raised [of X self cb args ml w r ml' w' object f e]
    Dump_do_dump_raised [of X d cb' args' ml w r ml' w' g m e]
  by blast

theorem serialization_failure_marks_None_witness:
  "Pickled (MainLoopObj saved_once) ''model.pkl'' (Some (Exn OSError ''No space left on device''))
     \<in> set (events_since [] (snd (snd (Checkpoint_do
          (raising_externals (Exn OSError ''No space left on device''))
          example_checkpoint ''after_training'' [] (example_main_loop, [])))))
   \<and> is_Exception (Exn OSError ''No space left on device'')
   \<and> fst (Checkpoint_do (raising_externals (Exn OSError ''No space left on device''))
        example_checkpoint ''after_training'' [] (example_main_loop, []))
      = Some (Exn OSError ''No space left on device'')
   \<and> current_row (log (fst (snd (Checkpoint_do
        (raising_externals (Exn OSError ''No space left on device''))
        example_checkpoint ''after_training'' [] (example_main_loop, []))))) SAVED_TO
      = Some PyNone
   \<and> Dumped ''dump'' (set_record SAVED_TO (PyStr ''dump'') example_main_loop)
        (Some (Exn OSError ''No space left on device''))
     \<in> set (events_since [] (snd (snd (Dump_do
          (raising_externals (Exn OSError ''No space left on device'')) (Dump_init ''dump'')
          ''after_training'' [] (example_main_loop, [])))))
   \<and> fst (Dump_do (raising_externals (Exn OSError ''No space left on device''))
        (Dump_init ''dump'') ''after_training'' [] (example_main_loop, []))
      = Some (Exn OSError ''No space left on device'')
   \<and> current_row (log (fst (snd (Dump_do
        (raising_externals (Exn OSError ''No space left on device'')) (Dump_init ''dump'')
        ''after_training'' [] (example_main_loop, []))))) SAVED_TO
      = Some PyNone"
  using serialization_failure_marks_None
    [where X = "raising_externals (Exn OSError ''No space left on device'')"
       and self = example_checkpoint and cb = "''after_training''" and args = "[]"
       and ml = example_main_loop and w = "[]"
       and r = "Some (Exn OSError ''No space left on device'')"
       and ml' = "set_record SAVED_TO PyNone example_main_loop"
       and w' = "[Pickled (MainLoopObj saved_once) ''model.pkl''
            (Some (Exn OSError ''No space left on device''))]"
       and object = "MainLoopObj saved_once" and f = "''model.pkl''"
       and e = "Exn OSError ''No space left on device''"
       and d = "Dump_init ''dump''" and cb' = "''after_training''" and args' = "[]"
       and g = "''dump''" and m = "set_record SAVED_TO (PyStr ''dump'') example_main_loop"]
    serialization_failure_marks_None
    [where X = "raising_externals (Exn OSError ''No space left on device'')"
       and self = example_checkpoint and cb = "''after_training''" and args = "[]"
       and ml = example_main_loop and w = "[]"
       and r = "Some (Exn OSError ''No space left on device'')"
       and ml' = "set_record SAVED_TO PyNone example_main_loop"
       and w' = "[Dumped ''dump'' (set_record SAVED_TO (PyStr ''dump'') example_main_loop)
            (Some (Exn OSError ''No space left on device''))]"
       and object = "MainLoopObj saved_once" and f = "''model.pkl''"
       and e = "Exn OSError ''No space left on device''"
       and d = "Dump_init ''dump''" and cb' = "''after_training''" and args' = "[]"
       and g = "''dump''" and m = "set_record SAVED_TO (PyStr ''dump'') example_main_loop"]
  unfolding full_disk_run full_disk_dump_run
  by (simp add: events_since_def set_record_simps)

subsection \<open>The records in the log\<close>






text \<open>
  As stated, C4 asks that the record under \<^verbatim>\<open>"saved_to"\<close> is a single path or
  \<^verbatim>\<open>None\<close>. \<^verbatim>\<open>Checkpoint.do\<close> records a tuple of paths: a second checkpoint in the
  same row, to a path given by the user, leaves two paths there.
\<close>

theorem second_checkpoint_records_two_paths:
  "fst (Checkpoint_do example_externals example_checkpoint ''after_epoch'' [''best.pkl'']
          (saved_once, [])) = None
   \<and> current_row (log (fst (snd (Checkpoint_do example_externals example_checkpoint
          ''after_epoch'' [''best.pkl''] (saved_once, []))))) SAVED_TO
     = Some (PyTuple [PyStr ''model.pkl'', PyStr ''best.pkl''])"
  unfolding second_run by (simp add: set_record_simps)

lemma saved_to_ok_set_record:
  "saved_to_ok (set_record SAVED_TO v ml) = is_saved_to_record v"
  by (simp add: saved_to_ok_def set_record_simps)

lemma Checkpoint_do_record_shape:
  assumes ok: "saved_to_ok ml"
    and run: "Checkpoint_do X self cb args (ml, w) = (r, ml', w')"
  shows "saved_to_ok ml'
      \<and> current_row (log ml') LOADED_FROM = current_row (log ml) LOADED_FROM
      \<and> (r = None \<longrightarrow>
           (\<exists>fm fu p ps. parse_args X cb args = Inr (fm, fu)
              \<and> choose_path (path self) fu = Inr p
              \<and> row_get (current_row (log ml)) SAVED_TO (PyTuple []) = PyTuple ps
              \<and> list_all is_path ps
              \<and> current_row (log ml') SAVED_TO = Some (PyTuple (ps @ [PyStr p]))))"
proof -
  have tuple: "list_all is_path already"
    if "row_get (current_row (log ml)) SAVED_TO (PyTuple []) = PyTuple already" for already
    using that ok by (auto simp add: row_get_def saved_to_ok_def split: option.splits)
  from Checkpoint_do_cases [OF run]
  consider "ml' = ml" "r \<noteq> None"
    | fm fu ml1 where "parse_args X cb args = Inr (fm, fu)"
        "Checkpoint_try X self fu (ml, w) = (r, ml1, w')"
        "ml' = (case r of None \<Rightarrow> ml1
                  | Some e \<Rightarrow> if is_Exception e then set_record SAVED_TO PyNone ml1 else ml1)"
    by auto
  then show ?thesis
  proof cases
    case 1
    with ok show ?thesis by auto
  next
    case 2
    from Checkpoint_try_cases [OF 2(2)]
    show ?thesis
    proof (elim disjE exE conjE)
      fix e
      assume "r = Some e" "is_Exception e" "ml1 = ml"
      with 2(3) show ?thesis
        by (simp add: saved_to_ok_set_record set_record_other keys_differ)
    next
      fix p already evs n
      assume b: "choose_path (path self) fu = Inr p"
        "row_get (current_row (log ml)) SAVED_TO (PyTuple []) = PyTuple already"
        "ml1 = set_record SAVED_TO (PyTuple (already @ [PyStr p])) ml"
      from tuple [OF b(2)] have t: "list_all is_path already" .
      show ?thesis
      proof (cases r)
        case None
        with 2(1,3) b t show ?thesis
          by (auto simp add: saved_to_ok_set_record set_record_simps set_record_other keys_differ)
      next
        case (Some e)
        with 2(3) b t show ?thesis
          by (auto simp add: saved_to_ok_set_record set_record_twice set_record_other keys_differ)
      qed
    qed
  qed
qed

lemma Dump_do_record_shape:
  assumes "Dump_do X d cb args (ml, w) = (r, ml', w')"
  shows "(current_row (log ml') SAVED_TO = Some (PyStr (folder (manager_dump_to d)))
      \<or> current_row (log ml') SAVED_TO = Some PyNone)
    \<and> current_row (log ml') LOADED_FROM = current_row (log ml) LOADED_FROM"
  using assms
  by (auto simp add: Dump_do_eq Let_def set_record_simps set_record_other keys_differ
        split: option.splits if_splits)

lemma LoadFromDump_record_shape:
  assumes run: "LoadFromDump_before_training X l (ml, w) = (r, ml', w')"
    and base: "base = (if os_path_exists X w (folder (manager_load l))
         then snd (load_result X (logger_info (loading_message (folder (manager_load l))) w)
                     (folder (manager_load l)) ml)
         else ml)"
  shows "current_row (log ml') SAVED_TO = current_row (log base) SAVED_TO
    \<and> current_row (log ml') LOADED_FROM =
        (if os_path_exists X w (folder (manager_load l)) \<and> r = None
         then Some (PyStr (folder (manager_load l)))
         else current_row (log base) LOADED_FROM)"
proof (cases "os_path_exists X w (folder (manager_load l))")
  case False
  with run base show ?thesis
    by (simp add: LoadFromDump_before_training_def)
next
  case True
  obtain r0 ml1 where lr: "load_result X (logger_info (loading_message (folder (manager_load l))) w)
           (folder (manager_load l)) ml = (r0, ml1)"
    by (cases "load_result X (logger_info (loading_message (folder (manager_load l))) w)
           (folder (manager_load l)) ml") auto
  from run LoadFromDump_run [OF True lr] True base lr
  show ?thesis
    by (auto simp add: set_record_simps set_record_other keys_differ [symmetric]
          split: option.splits if_splits)
qed

text \<open>
  C4, amended: after every terminating run of \<^verbatim>\<open>Checkpoint.do\<close> that starts with the
  record under \<^verbatim>\<open>"saved_to"\<close> absent, \<^verbatim>\<open>None\<close>, a path or a tuple of paths, the record
  is again of one of these forms, and after a run that returns it is the tuple of paths
  found with the path used appended, not a single path; after every terminating run of
  \<^verbatim>\<open>Dump.do\<close> it is the folder of the dump or \<^verbatim>\<open>None\<close>; both leave the record under
  \<^verbatim>\<open>"loaded_from"\<close> as it was. After every terminating run of
  \<^verbatim>\<open>LoadFromDump.before_training\<close> the record under \<^verbatim>\<open>"saved_to"\<close> is as \<^verbatim>\<open>load_to\<close>
  left it (as it was, when there is no dump), and the record under \<^verbatim>\<open>"loaded_from"\<close>
  is the folder of the dump when the method has returned with the folder present, and as
  \<^verbatim>\<open>load_to\<close> left it (as it was, when there is no dump) otherwise.
\<close>

theorem log_records_shape:
  "(saved_to_ok ml \<and> Checkpoint_do X self cb args (ml, w) = (r, ml', w') \<longrightarrow>
      saved_to_ok ml'
      \<and> current_row (log ml') LOADED_FROM = current_row (log ml) LOADED_FROM
      \<and> (r = None \<longrightarrow>
           (\<exists>fm fu p ps. parse_args X cb args = Inr (fm, fu)
              \<and> choose_path (path self) fu = Inr p
              \<and> row_get (current_row (log ml)) SAVED_TO (PyTuple []) = PyTuple ps
              \<and> list_all is_path ps
              \<and> current_row (log ml') SAVED_TO = Some (PyTuple (ps @ [PyStr p])))))
   \<and> (Dump_do X d cb' args' (ml, w) = (r, ml', w') \<longrightarrow>
        (current_row (log ml') SAVED_TO = Some (PyStr (folder (manager_dump_to d)))
         \<or> current_row (log ml') SAVED_TO = Some PyNone)
      \<and> current_row (log ml') LOADED_FROM = current_row (log ml) LOADED_FROM)
   \<and> (LoadFromDump_before_training X l (ml, w) = (r, ml', w')
      \<and> base = (if os_path_exists X w (folder (manager_load l))
           then snd (load_result X (logger_info (loading_message (folder (manager_load l))) w)
                       (folder (manager_load l)) ml)
           else ml) \<longrightarrow>
        current_row (log ml') SAVED_TO = current_row (log base) SAVED_TO
      \<and> current_row (log ml') LOADED_FROM =
          (if os_path_exists X w (folder (manager_load l)) \<and> r = None
           then Some (PyStr (folder (manager_load l)))
           else current_row (log base) LOADED_FROM))"
  using Checkpoint_do_record_shape [of ml X self cb args w r ml' w']
    Dump_do_record_shape [of X d cb' args' ml w r ml' w']
    LoadFromDump_record_shape [of X l ml w r ml' w' base]
  by blast

theorem log_records_shape_witness:
  "saved_to_ok saved_once
   \<and> fst (Checkpoint_do example_externals example_checkpoint ''after_epoch'' [''best.pkl'']
       (saved_once, [])) = None
   \<and> saved_to_ok (fst (snd (Checkpoint_do example_externals example_checkpoint ''after_epoch''
       [''best.pkl''] (saved_once, []))))
   \<and> choose_path (path example_checkpoint) [''best.pkl''] = Inr ''best.pkl''
   \<and> current_row (log (fst (snd (Checkpoint_do example_externals example_checkpoint
        ''after_epoch'' [''best.pkl''] (saved_once, []))))) SAVED_TO
       = Some (PyTuple ([PyStr ''model.pkl''] @ [PyStr ''best.pkl'']))
   \<and> current_row (log (fst (snd (Dump_do example_externals (Dump_init ''dump'')
        ''after_training'' [] (example_main_loop, []))))) SAVED_TO = Some (PyStr ''dump'')
   \<and> os_path_exists example_externals [] ''dump''
   \<and> fst (LoadFromDump_before_training example_externals (LoadFromDump_init ''dump'')
        (saved_once, [])) = None
   \<and> current_row (log (fst (snd (LoadFromDump_before_training example_externals
        (LoadFromDump_init ''dump'') (saved_once, []))))) LOADED_FROM
       = Some (PyStr ''dump'')
   \<and> current_row (log (fst (snd (LoadFromDump_before_training example_externals
        (LoadFromDump_init ''dump'') (saved_once, []))))) SAVED_TO
       = Some (PyTuple [PyStr ''model.pkl''])"
  using log_records_shape
    [where X = example_externals and self = example_checkpoint and cb = "''after_epoch''"
       and args = "[''best.pkl'']" and ml = saved_once and w = "[]" and r = None
       and ml' = "fst (snd (Checkpoint_do example_externals example_checkpoint ''after_epoch''
                    [''best.pkl''] (saved_once, [])))"
       and w' = "snd (snd (Checkpoint_do example_externals example_checkpoint ''after_epoch''
                    [''best.pkl''] (saved_once, [])))"
       and d = "Dump_init ''dump''" and cb' = "''after_training''" and args' = "[]"
       and l = "LoadFromDump_init ''dump''" and base = saved_once]
    log_records_shape
    [where X = example_externals and self = example_checkpoint and cb = "''after_epoch''"
       and args = "[''best.pkl'']" and ml = example_main_loop and w = "[]" and r = None
       and ml' = "fst (snd (Dump_do example_externals (Dump_init ''dump'')
                    ''after_training'' [] (example_main_loop, [])))"
       and w' = "snd (snd (Dump_do example_externals (Dump_init ''dump'')
                    ''after_training'' [] (example_main_loop, [])))"
       and d = "Dump_init ''dump''" and cb' = "''after_training''" and args' = "[]"
       and l = "LoadFromDump_init ''dump''" and base = example_main_loop]
    log_records_shape
    [where X = example_externals and self = example_checkpoint and cb = "''after_epoch''"
       and args = "[''best.pkl'']" and ml = saved_once and w = "[]" and r = None
       and ml' = "fst (snd (LoadFromDump_before_training example_externals
                    (LoadFromDump_init ''dump'') (saved_once, [])))"
       and w' = "snd (snd (LoadFromDump_before_training example_externals
                    (LoadFromDump_init ''dump'') (saved_once, [])))"
       and d = "Dump_init ''dump''" and cb' = "''after_training''" and args' = "[]"
       and l = "LoadFromDump_init ''dump''" and base = saved_once]
  unfolding second_run dump_run
  by (simp add: saved_to_ok_def saved_once_def set_record_simps SAVED_TO_def LOADED_FROM_def
        example_externals_def LoadFromDump_init_def MainLoopDumpManager_init_def
        Dump_init_def LoadFromDump_before_training_def manager_load_to_def logger_info_def
        example_checkpoint_def Checkpoint_init_def)

subsection \<open>The derived file names\<close>

text \<open>
  C5: for every path \<open>p\<close> and every attribute name \<open>a\<close> in \<^verbatim>\<open>save_separately\<close>,
  \<^verbatim>\<open>save_separately_filenames(p)\<close> maps \<open>a\<close> to \<open>root + "_" + a + ext\<close>, where
  \<open>(root, ext) = splitext(p)\<close>: the underscore and the attribute name are inserted into
  \<open>p\<close> right before its extension, \<open>ext\<close> being empty or the last dot of \<open>p\<close> with what
  follows it, in the last component of the path.
\<close>

theorem save_separately_filenames_inserts:
  assumes "attribute \<in> set (save_separately self)" and "splitext p = (root, ext)"
  shows "save_separately_filenames self p attribute = Some (root @ ''_'' @ attribute @ ext)
     \<and> root @ ext = p
     \<and> (ext = [] \<or> hd ext = CHR ''.'' \<and> CHR ''.'' \<notin> set (tl ext) \<and> CHR ''/'' \<notin> set ext)"
  using assms splitext_append [of p] splitext_extension [of p]
  by (simp add: save_separately_filenames_eq)

theorem save_separately_filenames_inserts_witness:
  "''log'' \<in> set (save_separately example_checkpoint)
   \<and> splitext ''model.pkl'' = (''model'', ''.pkl'')
   \<and> save_separately_filenames example_checkpoint ''model.pkl'' ''log'' = Some ''model_log.pkl''"
proof -
  have a: "''log'' \<in> set (save_separately example_checkpoint)"
    by (simp add: example_checkpoint_def Checkpoint_init_def)
  from save_separately_filenames_inserts [OF a splitext_model] a splitext_model
  show ?thesis by simp
qed

subsection \<open>Loading from a dump\<close>

text \<open>
  C6: if the dump folder exists and \<^verbatim>\<open>load_to\<close> raises no exception, then
  \<^verbatim>\<open>LoadFromDump.before_training\<close> returns and the current row of the log has, under
  \<^verbatim>\<open>"loaded_from"\<close>, exactly the folder of the manager, the manager being the
  \<^verbatim>\<open>MainLoopDumpManager\<close> made from the \<^verbatim>\<open>state_path\<close> given at construction.
\<close>

theorem LoadFromDump_records_folder:
  assumes "os_path_exists X w (folder (manager_load self))"
    and "load_result X (logger_info (loading_message (folder (manager_load self))) w)
           (folder (manager_load self)) ml = (None, ml1)"
  shows "\<exists>ml' w'. LoadFromDump_before_training X self (ml, w) = (None, ml', w')
     \<and> current_row (log ml') LOADED_FROM = Some (PyStr (folder (manager_load self)))
     \<and> manager_load (LoadFromDump_init state_path) = MainLoopDumpManager_init state_path"
  using LoadFromDump_run [OF assms]
  by (simp add: set_record_simps LoadFromDump_init_def)

theorem LoadFromDump_records_folder_witness:
  "os_path_exists example_externals [] (folder (manager_load (LoadFromDump_init ''dump'')))
   \<and> fst (LoadFromDump_before_training example_externals (LoadFromDump_init ''dump'')
            (example_main_loop, [])) = None
   \<and> current_row (log (fst (snd (LoadFromDump_before_training example_externals
        (LoadFromDump_init ''dump'') (example_main_loop, []))))) LOADED_FROM
       = Some (PyStr ''dump'')"
proof -
  have a: "os_path_exists example_externals []
      (folder (manager_load (LoadFromDump_init ''dump'')))"
    by (simp add: example_externals_def)
  have b: "load_result example_externals
      (logger_info (loading_message (folder (manager_load (LoadFromDump_init ''dump'')))) [])
      (folder (manager_load (LoadFromDump_init ''dump''))) example_main_loop
        = (None, example_main_loop)"
    by (simp add: example_externals_def)
  from LoadFromDump_records_folder [OF a b, of "''dump''"] a show ?thesis
    by (auto simp add: LoadFromDump_init_def MainLoopDumpManager_init_def)
qed

text \<open>
  C8: if the dump folder does not exist when \<^verbatim>\<open>LoadFromDump.before_training\<close> runs, the
  method returns without raising and leaves the main loop as it was, so that no
  \<^verbatim>\<open>"loaded_from"\<close> record is written; it only logs that no dump was found.
\<close>

theorem LoadFromDump_no_dump:
  assumes "\<not> os_path_exists X w (folder (manager_load self))"
  shows "LoadFromDump_before_training X self (ml, w) = (None, ml, logger_info ''No dump found'' w)"
  using assms by (simp add: LoadFromDump_before_training_def)

theorem LoadFromDump_no_dump_witness:
  "\<not> os_path_exists no_dump_externals [] (folder (manager_load (LoadFromDump_init ''dump'')))
   \<and> LoadFromDump_before_training no_dump_externals (LoadFromDump_init ''dump'')
        (example_main_loop, [])
       = (None, example_main_loop, [Info ''No dump found''])"
  using LoadFromDump_no_dump [of no_dump_externals "[]" "LoadFromDump_init ''dump''"
      example_main_loop]
  by (simp add: logger_info_def no_dump_externals_def)

subsection \<open>Checkpoints\<close>

text \<open>
  C7: \<^verbatim>\<open>Checkpoint.do\<close> changes nothing of the main loop but the entry of the log's
  current row under \<^verbatim>\<open>"saved_to"\<close>, whether it returns or raises: the main loop
  afterwards is the main loop before with that one entry replaced.
\<close>

theorem Checkpoint_do_frame:
  assumes "Checkpoint_do X self cb args (ml, w) = (r, ml', w')"
  shows "ml' = ml\<lparr>log := (log ml)\<lparr>current_row := (current_row (log ml))
            (SAVED_TO := current_row (log ml') SAVED_TO)\<rparr>\<rparr>"
proof -
  from Checkpoint_do_cases [OF assms]
  consider "ml' = ml"
    | fu ml1 where "Checkpoint_try X self fu (ml, w) = (r, ml1, w')"
        "ml' = ml1 \<or> ml' = set_record SAVED_TO PyNone ml1"
    by (auto split: option.splits if_splits)
  then show ?thesis
  proof cases
    case 1
    then show ?thesis by simp
  next
    case 2
    from Checkpoint_try_cases [OF 2(1)]
    have "ml1 = ml \<or> (\<exists>v. ml1 = set_record SAVED_TO v ml)" by blast
    with 2(2) have "ml' = ml \<or> (\<exists>v. ml' = set_record SAVED_TO v ml)"
      by (auto simp add: set_record_twice)
    then show ?thesis
      using set_record_frame [of SAVED_TO _ ml] by auto
  qed
qed

theorem Checkpoint_do_frame_witness:
  "fst (snd (Checkpoint_do example_externals example_checkpoint ''after_training'' []
       (example_main_loop, []))) =
     example_main_loop\<lparr>log := (log example_main_loop)\<lparr>current_row :=
        (current_row (log example_main_loop))(SAVED_TO \<mapsto> PyTuple [PyStr ''model.pkl''])\<rparr>\<rparr>
   \<and> fst (snd (Checkpoint_do (raising_externals (Exn OSError ''No space left on device''))
       example_checkpoint ''after_training'' [] (example_main_loop, []))) =
     example_main_loop\<lparr>log := (log example_main_loop)\<lparr>current_row :=
        (current_row (log example_main_loop))(SAVED_TO \<mapsto> PyNone)\<rparr>\<rparr>"
  using Checkpoint_do_frame [OF first_run] Checkpoint_do_frame [OF full_disk_run]
  unfolding first_run full_disk_run
  by (simp add: saved_once_def set_record_simps)

text \<open>
  C9: on a successful run of \<^verbatim>\<open>Checkpoint.do\<close>, the new \<^verbatim>\<open>"saved_to"\<close> record of the
  current row is the tuple that was there before (the empty tuple when the key was
  absent) with the path used appended as its last element.
\<close>

theorem Checkpoint_do_appends_path:
  assumes "Checkpoint_do X self cb args (ml, w) = (None, ml', w')"
  shows "\<exists>fm fu p already.
      parse_args X cb args = Inr (fm, fu)
    \<and> choose_path (path self) fu = Inr p
    \<and> row_get (current_row (log ml)) SAVED_TO (PyTuple []) = PyTuple already
    \<and> current_row (log ml') SAVED_TO = Some (PyTuple (already @ [PyStr p]))"
proof -
  from Checkpoint_do_cases [OF assms] obtain fm fu where
    parse: "parse_args X cb args = Inr (fm, fu)"
    and body: "Checkpoint_try X self fu (ml, w) = (None, ml', w')"
    by auto
  from Checkpoint_try_cases [OF body] obtain p already where
    "choose_path (path self) fu = Inr p"
    "row_get (current_row (log ml)) SAVED_TO (PyTuple []) = PyTuple already"
    "ml' = set_record SAVED_TO (PyTuple (already @ [PyStr p])) ml"
    by auto
  with parse show ?thesis by (simp add: set_record_simps)
qed

theorem Checkpoint_do_appends_path_witness:
  "fst (Checkpoint_do example_externals example_checkpoint ''after_epoch'' [''best.pkl'']
       (saved_once, [])) = None
   \<and> current_row (log saved_once) SAVED_TO = Some (PyTuple [PyStr ''model.pkl''])
   \<and> current_row (log (fst (snd (Checkpoint_do example_externals example_checkpoint
        ''after_epoch'' [''best.pkl''] (saved_once, []))))) SAVED_TO
       = Some (PyTuple [PyStr ''model.pkl'', PyStr ''best.pkl''])"
  using Checkpoint_do_appends_path [OF second_run]
  unfolding second_run
  by (simp add: saved_once_def set_record_simps)




end
